theory Spec2Isabelle
  imports Complex_Main
begin

section \<open>Values of the dynamic type \<open>any\<close>\<close>

text \<open>
  \<open>src/core/memory.ts\<close> stores and compares values of TypeScript's type \<open>any\<close>.
  The model covers the primitives, strings, dense arrays and plain objects. An object
  is the list of its own enumerable string-keyed properties in enumeration order; the
  keys of a real object are pairwise distinct, which \<open>distinct_keys\<close> records for the
  top level (the only level the code looks at). Numbers are exact rationals plus
  \<open>NaN\<close>: the code only divides two array lengths and compares the quotient with
  \<open>0.5\<close>, \<open>0\<close> and \<open>1\<close>, which correctly rounded double arithmetic decides the same
  way as exact arithmetic does. A \<open>char\<close> stands for one code unit of a string.
  Values are compared and copied as values: the code keeps references to the caller's
  objects and hands out its own arrays, and what a caller does to them afterwards is
  outside the model.
\<close>

datatype jsval =
    JUndefined
  | JNull
  | JBool bool
  | JNum rat
  | JNaN
  | JStr string
  | JArr "jsval list"
  | JObj "(string \<times> jsval) list"

datatype js_error = TypeError

text \<open>JavaScript truthiness, as used by \<open>x || y\<close> and \<open>if (x)\<close>.\<close>

fun truthy :: "jsval \<Rightarrow> bool" where
  "truthy JUndefined = False"
| "truthy JNull = False"
| "truthy (JBool b) = b"
| "truthy (JNum r) = (r \<noteq> 0)"
| "truthy JNaN = False"
| "truthy (JStr s) = (s \<noteq> [])"
| "truthy (JArr xs) = True"
| "truthy (JObj ps) = True"

text \<open>
  Decimal rendering of an array index, as property keys are strings. \<open>digit_char\<close> is
  only applied to a digit, a number below 10.
\<close>

definition digit_char :: "nat \<Rightarrow> char" where
  "digit_char d = ''0123456789'' ! d"

function string_of_nat :: "nat \<Rightarrow> string" where
  "string_of_nat n =
     (if n < 10 then [digit_char n]
      else string_of_nat (n div 10) @ [digit_char (n mod 10)])"
  by pat_completeness auto
termination
  by (relation "measure id") auto

declare string_of_nat.simps [simp del]

definition index_keys :: "nat \<Rightarrow> string list" where
  "index_keys n = map string_of_nat [0..<n]"

text \<open>
  \<open>Object.keys(v)\<close>: a \<open>TypeError\<close> on \<open>undefined\<close> and \<open>null\<close>, no keys for the other
  primitives, the indices for a string or an array, the property names for an object.
\<close>

fun object_keys :: "jsval \<Rightarrow> js_error + string list" where
  "object_keys JUndefined = Inl TypeError"
| "object_keys JNull = Inl TypeError"
| "object_keys (JBool b) = Inr []"
| "object_keys (JNum r) = Inr []"
| "object_keys JNaN = Inr []"
| "object_keys (JStr s) = Inr (index_keys (length s))"
| "object_keys (JArr xs) = Inr (index_keys (length xs))"
| "object_keys (JObj ps) = Inr (map fst ps)"

fun distinct_keys :: "jsval \<Rightarrow> bool" where
  "distinct_keys (JObj ps) = distinct (map fst ps)"
| "distinct_keys v = True"

fun nullish :: "jsval \<Rightarrow> bool" where
  "nullish JUndefined = True"
| "nullish JNull = True"
| "nullish v = False"

section \<open>Dates\<close>

text \<open>
  A \<open>Date\<close> is its time value, the milliseconds since the epoch. \<open>new Date()\<close> reads the
  clock, so the operations that call it take the time value as an argument.
  \<open>Date.prototype.toISOString\<close> renders \<open>YYYY-MM-DDTHH:mm:ss.sssZ\<close> in UTC, with a sign
  and six digits for a year outside 0 to 9999; \<open>civil_from_days\<close> is the proleptic
  Gregorian date (year, month, day) of a day number counted from 1970-01-01. It throws
  only on an invalid date, which \<open>new Date()\<close> never makes.
\<close>

definition pad :: "nat \<Rightarrow> nat \<Rightarrow> string" where
  "pad width n = replicate (width - length (string_of_nat n)) CHR ''0'' @ string_of_nat n"

definition civil_from_days :: "int \<Rightarrow> int \<times> int \<times> int" where
  "civil_from_days days =
     (let z = days + 719468;
          era = z div 146097;
          doe = z - era * 146097;
          yoe = (doe - doe div 1460 + doe div 36524 - doe div 146096) div 365;
          doy = doe - (365 * yoe + yoe div 4 - yoe div 100);
          mp = (5 * doy + 2) div 153;
          d = doy - (153 * mp + 2) div 5 + 1;
          m = (if mp < 10 then mp + 3 else mp - 9)
      in (yoe + era * 400 + (if m \<le> 2 then 1 else 0), m, d))"

definition year_string :: "int \<Rightarrow> string" where
  "year_string y =
     (if 0 \<le> y \<and> y \<le> 9999 then pad 4 (nat y)
      else if y < 0 then CHR ''-'' # pad 6 (nat (- y))
      else CHR ''+'' # pad 6 (nat y))"

definition toISOString :: "int \<Rightarrow> string" where
  "toISOString t =
     (let ms = t mod 86400000 in
      case civil_from_days (t div 86400000) of
        (y, m, d) \<Rightarrow>
          year_string y @ ''-'' @ pad 2 (nat m) @ ''-'' @ pad 2 (nat d)
          @ ''T'' @ pad 2 (nat (ms div 3600000))
          @ '':'' @ pad 2 (nat (ms div 60000 mod 60))
          @ '':'' @ pad 2 (nat (ms div 1000 mod 60))
          @ ''.'' @ pad 3 (nat (ms mod 1000)) @ ''Z'')"

section \<open>The memory system\<close>

text \<open>
  The interfaces and the class state of \<open>src/core/memory.ts\<close>, lines 7 to 31. A
  \<open>FailurePattern\<close> has the fields of a \<open>SuccessPattern\<close> and \<open>error\<close>. The four maps are
  JavaScript \<open>Map\<close>s keyed by strings; their iteration order plays no role below.
\<close>

record SuccessPattern =
  type :: string
  config :: jsval
  timestamp :: int

record FailurePattern = SuccessPattern +
  error :: string

record Recommendation =
  suggestion :: string
  confidence :: rat
  based_on :: "string list"

record MemorySystem =
  storage :: "string \<rightharpoonup> jsval"
  successPatterns :: "string \<rightharpoonup> SuccessPattern list"
  failurePatterns :: "string \<rightharpoonup> FailurePattern list"
  "context" :: "string \<rightharpoonup> jsval"
  initialized :: bool

text \<open>\<open>calculateSimilarity\<close>, lines 113 to 123.\<close>

definition calculateSimilarity :: "jsval \<Rightarrow> jsval \<Rightarrow> js_error + rat" where
  "calculateSimilarity config1 config2 =
     (case object_keys config1 of
        Inl e \<Rightarrow> Inl e
      | Inr keys1 \<Rightarrow>
          (case object_keys config2 of
             Inl e \<Rightarrow> Inl e
           | Inr keys2 \<Rightarrow>
               (let commonKeys = filter (\<lambda>key. key \<in> set keys2) keys1 in
                if length keys1 = 0 \<and> length keys2 = 0 then Inr 1
                else if length keys1 = 0 \<or> length keys2 = 0 then Inr 0
                else Inr (of_nat (length commonKeys)
                          / of_nat (max (length keys1) (length keys2))))))"

text \<open>The field initialisers, lines 27 to 31, and \<open>initialize\<close>, lines 33 to 36.\<close>

definition new_MemorySystem :: MemorySystem where
  "new_MemorySystem =
     \<lparr>storage = Map.empty, successPatterns = Map.empty, failurePatterns = Map.empty,
      context = Map.empty, initialized = False\<rparr>"

definition initialize :: "MemorySystem \<Rightarrow> MemorySystem" where
  "initialize m = m\<lparr>initialized := True\<rparr>"

text \<open>
  \<open>store\<close> and \<open>retrieve\<close>, lines 38 to 44. \<open>Map.prototype.get\<close> gives \<open>undefined\<close> for
  a missing key; \<open>a || b\<close> is \<open>a\<close> when \<open>a\<close> is truthy and \<open>b\<close> otherwise.
\<close>

definition map_get :: "(string \<rightharpoonup> jsval) \<Rightarrow> string \<Rightarrow> jsval" where
  "map_get mp key = (case mp key of None \<Rightarrow> JUndefined | Some v \<Rightarrow> v)"

definition js_or :: "jsval \<Rightarrow> jsval \<Rightarrow> jsval" where
  "js_or a b = (if truthy a then a else b)"

definition store :: "MemorySystem \<Rightarrow> string \<Rightarrow> jsval \<Rightarrow> MemorySystem" where
  "store m key data = m\<lparr>storage := (storage m)(key \<mapsto> data)\<rparr>"

definition retrieve :: "MemorySystem \<Rightarrow> string \<Rightarrow> jsval" where
  "retrieve m key = js_or (map_get (storage m) key) JNull"

text \<open>
  \<open>learnSuccess\<close>, \<open>learnFailure\<close>, \<open>getSuccessPatterns\<close> and \<open>getFailurePatterns\<close>, lines
  46 to 77. An array is always truthy, so \<open>get(type) || []\<close> is \<open>[]\<close> exactly for a
  missing key. \<open>now\<close> is the time value of \<open>new Date()\<close>.
\<close>

definition learnSuccess :: "MemorySystem \<Rightarrow> string \<Rightarrow> jsval \<Rightarrow> int \<Rightarrow> MemorySystem" where
  "learnSuccess m ty cfg now =
     (let pattern = \<lparr>type = ty, config = cfg, timestamp = now\<rparr>;
          existing = (case successPatterns m ty of None \<Rightarrow> [] | Some ps \<Rightarrow> ps)
      in m\<lparr>successPatterns := (successPatterns m)(ty \<mapsto> existing @ [pattern])\<rparr>)"

definition learnFailure ::
  "MemorySystem \<Rightarrow> string \<Rightarrow> jsval \<Rightarrow> string \<Rightarrow> int \<Rightarrow> MemorySystem" where
  "learnFailure m ty cfg err now =
     (let pattern = \<lparr>type = ty, config = cfg, timestamp = now, error = err\<rparr>;
          existing = (case failurePatterns m ty of None \<Rightarrow> [] | Some ps \<Rightarrow> ps)
      in m\<lparr>failurePatterns := (failurePatterns m)(ty \<mapsto> existing @ [pattern])\<rparr>)"

definition getSuccessPatterns :: "MemorySystem \<Rightarrow> string \<Rightarrow> SuccessPattern list" where
  "getSuccessPatterns m ty = (case successPatterns m ty of None \<Rightarrow> [] | Some ps \<Rightarrow> ps)"

definition getFailurePatterns :: "MemorySystem \<Rightarrow> string \<Rightarrow> FailurePattern list" where
  "getFailurePatterns m ty = (case failurePatterns m ty of None \<Rightarrow> [] | Some ps \<Rightarrow> ps)"

text \<open>The loop of \<open>getRecommendations\<close>, lines 84 to 93; an exception of
  \<open>calculateSimilarity\<close> leaves the loop and the method.\<close>

fun recommend_loop ::
  "string \<Rightarrow> jsval \<Rightarrow> SuccessPattern list \<Rightarrow> Recommendation list
   \<Rightarrow> js_error + Recommendation list" where
  "recommend_loop ty partialConfig [] recommendations = Inr recommendations"
| "recommend_loop ty partialConfig (pattern # rest) recommendations =
     (case calculateSimilarity partialConfig (config pattern) of
        Inl e \<Rightarrow> Inl e
      | Inr similarity \<Rightarrow>
          recommend_loop ty partialConfig rest
            (if similarity \<ge> 1 / 2 then
               recommendations @
                 [\<lparr>suggestion = ''Consider using configuration similar to successful '' @ ty,
                   confidence = similarity,
                   based_on = [''Success pattern from '' @ toISOString (timestamp pattern)]\<rparr>]
             else recommendations))"

definition getRecommendations ::
  "MemorySystem \<Rightarrow> string \<Rightarrow> jsval \<Rightarrow> js_error + Recommendation list" where
  "getRecommendations m ty partialConfig =
     recommend_loop ty partialConfig (getSuccessPatterns m ty) []"

text \<open>\<open>storePattern\<close>, \<open>retrievePattern\<close>, \<open>storeLessons\<close> and \<open>setContext\<close>, lines 98 to
  111 and 125 to 127.\<close>

definition storePattern :: "MemorySystem \<Rightarrow> string \<Rightarrow> jsval \<Rightarrow> int \<Rightarrow> MemorySystem" where
  "storePattern m ty pattern now = learnSuccess m ty pattern now"

definition retrievePattern :: "MemorySystem \<Rightarrow> string \<Rightarrow> jsval list" where
  "retrievePattern m ty = map config (getSuccessPatterns m ty)"

definition storeLessons :: "MemorySystem \<Rightarrow> string \<Rightarrow> jsval \<Rightarrow> MemorySystem" where
  "storeLessons m ty lessons = store m (''lessons-'' @ ty) lessons"

definition setContext :: "MemorySystem \<Rightarrow> string \<Rightarrow> jsval \<Rightarrow> MemorySystem" where
  "setContext m key v = m\<lparr>context := (context m)(key \<mapsto> v)\<rparr>"

text \<open>\<open>clearContext(key?)\<close>, lines 137 to 143: the argument is a string or omitted
  (\<open>None\<close>), and \<open>if (key)\<close> tests its truthiness.\<close>

definition clearContext :: "MemorySystem \<Rightarrow> string option \<Rightarrow> MemorySystem" where
  "clearContext m key =
     (case key of
        Some k \<Rightarrow>
          (if truthy (JStr k) then m\<lparr>context := (context m)(k := None)\<rparr>
           else m\<lparr>context := Map.empty\<rparr>)
      | None \<Rightarrow> m\<lparr>context := Map.empty\<rparr>)"

definition isInitialized :: "MemorySystem \<Rightarrow> bool" where
  "isInitialized m = initialized m"

section \<open>Key sets and recorded calls\<close>

text \<open>
  The similarity as the specification words it: the number of shared top-level keys
  over the larger of the two key-set sizes.
\<close>

definition key_set :: "jsval \<Rightarrow> string set" where
  "key_set v = (case object_keys v of Inr ks \<Rightarrow> set ks | Inl e \<Rightarrow> {})"

definition shared_key_ratio :: "jsval \<Rightarrow> jsval \<Rightarrow> rat" where
  "shared_key_ratio a b =
     of_nat (card (key_set a \<inter> key_set b)) / of_nat (max (card (key_set a)) (card (key_set b)))"

text \<open>The value \<open>calculateSimilarity\<close> returns, where it returns.\<close>

definition computed_similarity :: "jsval \<Rightarrow> jsval \<Rightarrow> rat" where
  "computed_similarity a b = (case calculateSimilarity a b of Inr s \<Rightarrow> s | Inl e \<Rightarrow> 0)"

text \<open>
  The mutating methods as calls, and a memory system as the result of a sequence of
  calls on a fresh instance. \<open>success_record\<close> and \<open>failure_record\<close> give the record a
  call asks to append, if any.
\<close>

datatype call =
    Initialize
  | Store string jsval
  | LearnSuccess string jsval int
  | LearnFailure string jsval string int
  | StorePattern string jsval int
  | StoreLessons string jsval
  | SetContext string jsval
  | ClearContext "string option"

fun perform :: "MemorySystem \<Rightarrow> call \<Rightarrow> MemorySystem" where
  "perform m Initialize = initialize m"
| "perform m (Store key data) = store m key data"
| "perform m (LearnSuccess ty cfg now) = learnSuccess m ty cfg now"
| "perform m (LearnFailure ty cfg err now) = learnFailure m ty cfg err now"
| "perform m (StorePattern ty pattern now) = storePattern m ty pattern now"
| "perform m (StoreLessons ty lessons) = storeLessons m ty lessons"
| "perform m (SetContext key v) = setContext m key v"
| "perform m (ClearContext key) = clearContext m key"

definition run :: "call list \<Rightarrow> MemorySystem" where
  "run calls = foldl perform new_MemorySystem calls"

fun success_record :: "call \<Rightarrow> SuccessPattern list" where
  "success_record (LearnSuccess ty cfg now) = [\<lparr>type = ty, config = cfg, timestamp = now\<rparr>]"
| "success_record (StorePattern ty pattern now) =
     [\<lparr>type = ty, config = pattern, timestamp = now\<rparr>]"
| "success_record c = []"

fun failure_record :: "call \<Rightarrow> FailurePattern list" where
  "failure_record (LearnFailure ty cfg err now) =
     [\<lparr>type = ty, config = cfg, timestamp = now, error = err\<rparr>]"
| "failure_record c = []"

definition recorded_successes :: "call list \<Rightarrow> string \<Rightarrow> SuccessPattern list" where
  "recorded_successes calls ty = filter (\<lambda>p. type p = ty) (concat (map success_record calls))"

definition recorded_failures :: "call list \<Rightarrow> string \<Rightarrow> FailurePattern list" where
  "recorded_failures calls ty = filter (\<lambda>p. type p = ty) (concat (map failure_record calls))"

section \<open>Object keys\<close>

lemma string_of_nat_small: "n < 10 \<Longrightarrow> string_of_nat n = [digit_char n]"
  by (subst string_of_nat.simps) simp

lemma string_of_nat_large:
  "\<not> n < 10 \<Longrightarrow> string_of_nat n = string_of_nat (n div 10) @ [digit_char (n mod 10)]"
  by (subst string_of_nat.simps) simp

lemma string_of_nat_not_Nil: "string_of_nat n \<noteq> []"
  by (cases "n < 10") (simp_all add: string_of_nat_small string_of_nat_large)

lemma digit_char_inj: "d < 10 \<Longrightarrow> e < 10 \<Longrightarrow> digit_char d = digit_char e \<Longrightarrow> d = e"
  unfolding digit_char_def
  by (subst (asm) nth_eq_iff_index_eq) simp_all

lemma string_of_nat_inj: "string_of_nat m = string_of_nat n \<Longrightarrow> m = n"
proof (induction m arbitrary: n rule: string_of_nat.induct)
  case (1 m)
  show ?case
  proof (cases "m < 10")
    case small_m: True
    show ?thesis
    proof (cases "n < 10")
      case True
      with small_m "1.prems" show ?thesis
        by (simp add: string_of_nat_small digit_char_inj)
    next
      case False
      with small_m "1.prems" string_of_nat_not_Nil [of "n div 10"] show ?thesis
        by (simp add: string_of_nat_small string_of_nat_large)
    qed
  next
    case big_m: False
    show ?thesis
    proof (cases "n < 10")
      case True
      with big_m "1.prems" string_of_nat_not_Nil [of "m div 10"] show ?thesis
        by (simp add: string_of_nat_small string_of_nat_large)
    next
      case False
      with big_m "1.prems"
      have "string_of_nat (m div 10) = string_of_nat (n div 10)"
        and dg: "digit_char (m mod 10) = digit_char (n mod 10)"
        by (simp_all add: string_of_nat_large)
      with "1.IH" big_m have q: "m div 10 = n div 10" by blast
      from dg have r: "m mod 10 = n mod 10"
        by (intro digit_char_inj) simp_all
      from q r show ?thesis
        by (metis div_mult_mod_eq)
    qed
  qed
qed

lemma distinct_index_keys: "distinct (index_keys n)"
  unfolding index_keys_def
  by (simp add: distinct_map inj_on_def string_of_nat_inj)

lemma distinct_object_keys:
  "distinct_keys v \<Longrightarrow> object_keys v = Inr ks \<Longrightarrow> distinct ks"
  by (cases v) (auto simp: distinct_index_keys)

lemma object_keys_total: "\<not> nullish v \<Longrightarrow> \<exists>ks. object_keys v = Inr ks"
  by (cases v) simp_all

lemma object_keys_nullish: "nullish v \<Longrightarrow> object_keys v = Inl TypeError"
  by (cases v) simp_all

lemma length_common_keys:
  "distinct xs \<Longrightarrow> length (filter (\<lambda>key. key \<in> set ys) xs) = card (set xs \<inter> set ys)"
proof -
  assume "distinct xs"
  then have "length (filter (\<lambda>key. key \<in> set ys) xs) = card ({key. key \<in> set ys} \<inter> set xs)"
    by (rule distinct_length_filter)
  also have "{key. key \<in> set ys} \<inter> set xs = set xs \<inter> set ys"
    by auto
  finally show ?thesis .
qed

section \<open>Dates of the examples\<close>

lemma replicate_numeral_unfold: "replicate (numeral k) x = x # replicate (pred_numeral k) x"
  by (simp add: numeral_eq_Suc)

lemma civil_from_days_examples:
  "civil_from_days 0 = (1970, 1, 1)" "civil_from_days 19675 = (2023, 11, 14)"
  by code_simp+

lemma toISOString_examples:
  "toISOString 0 = ''1970-01-01T00:00:00.000Z''"
  "toISOString 1700000000000 = ''2023-11-14T22:13:20.000Z''"
  unfolding toISOString_def
  by (simp_all add: civil_from_days_examples)
     (simp_all add: year_string_def pad_def digit_char_def replicate_numeral_unfold
        string_of_nat_small string_of_nat_large)

section \<open>The similarity of two configurations\<close>

lemma calculateSimilarity_throws:
  assumes "nullish a \<or> nullish b"
  shows "calculateSimilarity a b = Inl TypeError"
proof (cases "object_keys a")
  case (Inl e)
  then show ?thesis
    by (cases e) (simp add: calculateSimilarity_def)
next
  case (Inr ka)
  with assms have "nullish b"
    using object_keys_nullish [of a] by auto
  with Inr show ?thesis
    by (simp add: calculateSimilarity_def object_keys_nullish)
qed

lemma calculateSimilarity_returns:
  assumes "\<not> nullish a" and "\<not> nullish b"
  shows "\<exists>s. calculateSimilarity a b = Inr s"
proof -
  from assms obtain ka kb where "object_keys a = Inr ka" and "object_keys b = Inr kb"
    using object_keys_total by blast
  then show ?thesis
    by (simp add: calculateSimilarity_def Let_def)
qed

lemma computed_similarity_eq:
  assumes "\<not> nullish a" and "\<not> nullish b"
  shows "calculateSimilarity a b = Inr (computed_similarity a b)"
  using calculateSimilarity_returns [OF assms]
  by (auto simp: computed_similarity_def)

lemma calculateSimilarity_range:
  assumes "calculateSimilarity a b = Inr s"
  shows "0 \<le> s \<and> s \<le> 1"
proof -
  from assms obtain ka kb where ka: "object_keys a = Inr ka" and kb: "object_keys b = Inr kb"
    by (auto simp: calculateSimilarity_def split: sum.splits)
  let ?c = "length (filter (\<lambda>key. key \<in> set kb) ka)"
  let ?m = "max (length ka) (length kb)"
  have le: "?c \<le> ?m"
    using length_filter_le [of "\<lambda>key. key \<in> set kb" ka] by (simp add: le_max_iff_disj)
  show ?thesis
  proof (cases "ka = [] \<or> kb = []")
    case True
    with assms ka kb show ?thesis
      by (auto simp: calculateSimilarity_def split: if_splits)
  next
    case False
    with assms ka kb have s: "s = of_nat ?c / of_nat ?m"
      by (simp add: calculateSimilarity_def)
    from False have pos: "0 < ?m" by (cases ka) simp_all
    from le have "(of_nat ?c :: rat) \<le> of_nat ?m"
      by (simp only: of_nat_le_iff)
    with pos s show ?thesis
      by (simp add: divide_le_eq_1)
  qed
qed

text \<open>
  C1. For configurations \<open>a\<close> and \<open>b\<close> that have keys (neither is \<open>null\<close> or
  \<open>undefined\<close>; the keys of an object are pairwise distinct), \<open>calculateSimilarity\<close>
  returns the number of shared top-level keys divided by the larger of the two key-set
  sizes; it returns 1 when both key sets are empty and 0 when exactly one is.
\<close>

theorem calculateSimilarity_shared_key_ratio:
  assumes "\<not> nullish a" and "\<not> nullish b" and "distinct_keys a" and "distinct_keys b"
  shows "calculateSimilarity a b =
           Inr (if key_set a = {} \<and> key_set b = {} then 1
                else if key_set a = {} \<or> key_set b = {} then 0
                else shared_key_ratio a b)"
proof -
  from assms obtain ka kb where ka: "object_keys a = Inr ka" and kb: "object_keys b = Inr kb"
    using object_keys_total by blast
  from assms ka kb have "distinct ka" and "distinct kb"
    by (auto dest: distinct_object_keys)
  then have "length (filter (\<lambda>key. key \<in> set kb) ka) = card (set ka \<inter> set kb)"
    and "length ka = card (set ka)" and "length kb = card (set kb)"
    by (simp_all add: length_common_keys distinct_card)
  with ka kb show ?thesis
    by (simp add: calculateSimilarity_def key_set_def shared_key_ratio_def Let_def)
qed

theorem calculateSimilarity_shared_key_ratio_witness:
  "calculateSimilarity (JObj [(''framework'', JStr ''express'')])
     (JObj [(''framework'', JStr ''express''), (''db'', JStr ''postgres'')]) = Inr (1 / 2)
   \<and> calculateSimilarity (JObj []) (JArr []) = Inr 1
   \<and> calculateSimilarity (JObj []) (JStr ''ab'') = Inr 0"
  using calculateSimilarity_shared_key_ratio
          [of "JObj [(''framework'', JStr ''express'')]"
              "JObj [(''framework'', JStr ''express''), (''db'', JStr ''postgres'')]"]
        calculateSimilarity_shared_key_ratio [of "JObj []" "JArr []"]
        calculateSimilarity_shared_key_ratio [of "JObj []" "JStr ''ab''"]
  by (simp add: key_set_def shared_key_ratio_def index_keys_def string_of_nat_small)

text \<open>
  C9. The similarity is symmetric in its two arguments, the case where
  \<open>Object.keys\<close> throws included.
\<close>

theorem calculateSimilarity_symmetric:
  assumes "distinct_keys a" and "distinct_keys b"
  shows "calculateSimilarity a b = calculateSimilarity b a"
proof (cases "nullish a \<or> nullish b")
  case True
  then show ?thesis
    using calculateSimilarity_throws [of a b] calculateSimilarity_throws [of b a] by auto
next
  case False
  then obtain ka kb where ka: "object_keys a = Inr ka" and kb: "object_keys b = Inr kb"
    using object_keys_total by blast
  from assms ka kb have "distinct ka" and "distinct kb"
    by (auto dest: distinct_object_keys)
  then have "length (filter (\<lambda>key. key \<in> set kb) ka) = card (set ka \<inter> set kb)"
    and "length (filter (\<lambda>key. key \<in> set ka) kb) = card (set ka \<inter> set kb)"
    by (simp_all add: length_common_keys Int_commute)
  with ka kb show ?thesis
    by (auto simp: calculateSimilarity_def Let_def max.commute)
qed

theorem calculateSimilarity_symmetric_witness:
  "calculateSimilarity (JObj [(''a'', JNum 1), (''b'', JNull), (''c'', JNaN)])
       (JObj [(''b'', JBool True), (''d'', JStr [])])
     = calculateSimilarity (JObj [(''b'', JBool True), (''d'', JStr [])])
         (JObj [(''a'', JNum 1), (''b'', JNull), (''c'', JNaN)])
   \<and> calculateSimilarity (JObj [(''b'', JBool True), (''d'', JStr [])])
         (JObj [(''a'', JNum 1), (''b'', JNull), (''c'', JNaN)]) = Inr (1 / 3)"
  using calculateSimilarity_symmetric
          [of "JObj [(''a'', JNum 1), (''b'', JNull), (''c'', JNaN)]"
              "JObj [(''b'', JBool True), (''d'', JStr [])]"]
  by (simp add: calculateSimilarity_def)

section \<open>Recommendations\<close>

lemma recommend_loop_map_filter:
  assumes "\<forall>p\<in>set pats. \<not> nullish (config p)" and "pats \<noteq> [] \<longrightarrow> \<not> nullish cfg"
  shows "recommend_loop ty cfg pats acc =
           Inr (acc @
             map (\<lambda>p. \<lparr>suggestion = ''Consider using configuration similar to successful '' @ ty,
                        confidence = computed_similarity cfg (config p),
                        based_on = [''Success pattern from '' @ toISOString (timestamp p)]\<rparr>)
               (filter (\<lambda>p. computed_similarity cfg (config p) \<ge> 1 / 2) pats))"
  using assms
proof (induction pats arbitrary: acc)
  case Nil
  show ?case by simp
next
  case (Cons p pats)
  from Cons.prems have ok: "\<not> nullish cfg" "\<not> nullish (config p)"
    by simp_all
  from Cons.prems have rest: "\<forall>q\<in>set pats. \<not> nullish (config q)" "pats \<noteq> [] \<longrightarrow> \<not> nullish cfg"
    by simp_all
  note sim = computed_similarity_eq [OF ok]
  show ?case
    by (simp add: sim Cons.IH [OF rest])
qed

lemma recommend_loop_range:
  assumes "recommend_loop ty cfg pats acc = Inr rs"
    and "\<forall>r\<in>set acc. 0 \<le> confidence r \<and> confidence r \<le> 1"
  shows "\<forall>r\<in>set rs. 0 \<le> confidence r \<and> confidence r \<le> 1"
  using assms
proof (induction pats arbitrary: acc)
  case Nil
  then show ?case by simp
next
  case (Cons p pats)
  from Cons.prems(1) obtain s where s: "calculateSimilarity cfg (config p) = Inr s"
    by (auto split: sum.splits)
  note range = calculateSimilarity_range [OF s]
  let ?acc = "if s \<ge> 1 / 2 then
               acc @ [\<lparr>suggestion = ''Consider using configuration similar to successful '' @ ty,
                        confidence = s,
                        based_on = [''Success pattern from '' @ toISOString (timestamp p)]\<rparr>]
             else acc"
  from Cons.prems(1) s have loop: "recommend_loop ty cfg pats ?acc = Inr rs"
    by simp
  from Cons.prems(2) range have "\<forall>r\<in>set ?acc. 0 \<le> confidence r \<and> confidence r \<le> 1"
    by auto
  with loop show ?case
    by (rule Cons.IH)
qed

text \<open>
  C2, as stated, fails: \<open>learnSuccess\<close> accepts any config, \<open>null\<close> included. With the
  records \<open>{a: 1}\<close> and \<open>null\<close> stored for the type and the candidate \<open>{a: 2}\<close>, the first
  record has similarity 1, yet the method returns no Recommendation for it:
  \<open>Object.keys(null)\<close> throws a \<open>TypeError\<close> at the second record and the call rejects.
\<close>

theorem getRecommendations_null_record_loses_qualifying:
  "getRecommendations
     (learnSuccess (learnSuccess new_MemorySystem ''web'' (JObj [(''a'', JNum 1)]) 0)
        ''web'' JNull 1)
     ''web'' (JObj [(''a'', JNum 2)]) = Inl TypeError
   \<and> calculateSimilarity (JObj [(''a'', JNum 2)]) (JObj [(''a'', JNum 1)]) = Inr 1
   \<and> getSuccessPatterns
       (learnSuccess (learnSuccess new_MemorySystem ''web'' (JObj [(''a'', JNum 1)]) 0)
          ''web'' JNull 1) ''web''
     = [\<lparr>type = ''web'', config = JObj [(''a'', JNum 1)], timestamp = 0\<rparr>,
        \<lparr>type = ''web'', config = JNull, timestamp = 1\<rparr>]"
  by (simp add: getRecommendations_def getSuccessPatterns_def learnSuccess_def
        new_MemorySystem_def calculateSimilarity_def)

text \<open>
  C2, amended. When no stored success configuration of the type is \<open>null\<close> or
  \<open>undefined\<close>, and neither is the candidate unless nothing is stored for the type,
  \<open>getRecommendations\<close> returns exactly one Recommendation for each stored success
  record of the type whose similarity is at least 0.5, in the stored order, with the
  computed similarity as confidence and one provenance string made of the record's
  timestamp; the other records contribute nothing.
\<close>

theorem getRecommendations_qualifying_records:
  assumes "\<forall>p\<in>set (getSuccessPatterns m ty). \<not> nullish (config p)"
    and "getSuccessPatterns m ty \<noteq> [] \<longrightarrow> \<not> nullish partialConfig"
  shows "getRecommendations m ty partialConfig =
           Inr (map (\<lambda>p. \<lparr>suggestion = ''Consider using configuration similar to successful '' @ ty,
                          confidence = computed_similarity partialConfig (config p),
                          based_on = [''Success pattern from '' @ toISOString (timestamp p)]\<rparr>)
                  (filter (\<lambda>p. computed_similarity partialConfig (config p) \<ge> 1 / 2)
                     (getSuccessPatterns m ty)))
         \<and> (\<forall>p\<in>set (getSuccessPatterns m ty).
               calculateSimilarity partialConfig (config p)
                 = Inr (computed_similarity partialConfig (config p)))"
proof
  show "getRecommendations m ty partialConfig =
           Inr (map (\<lambda>p. \<lparr>suggestion = ''Consider using configuration similar to successful '' @ ty,
                          confidence = computed_similarity partialConfig (config p),
                          based_on = [''Success pattern from '' @ toISOString (timestamp p)]\<rparr>)
                  (filter (\<lambda>p. computed_similarity partialConfig (config p) \<ge> 1 / 2)
                     (getSuccessPatterns m ty)))"
    unfolding getRecommendations_def
    using recommend_loop_map_filter [OF assms, of ty "[]"] by simp
next
  show "\<forall>p\<in>set (getSuccessPatterns m ty).
          calculateSimilarity partialConfig (config p)
            = Inr (computed_similarity partialConfig (config p))"
  proof
    fix p assume p: "p \<in> set (getSuccessPatterns m ty)"
    with assms have "\<not> nullish partialConfig" and "\<not> nullish (config p)"
      by auto
    then show "calculateSimilarity partialConfig (config p)
                 = Inr (computed_similarity partialConfig (config p))"
      by (rule computed_similarity_eq)
  qed
qed

theorem getRecommendations_qualifying_records_witness:
  "getRecommendations
     (learnSuccess
        (learnSuccess
           (learnSuccess new_MemorySystem ''web''
              (JObj [(''framework'', JStr ''express''), (''db'', JStr ''postgres'')]) 0)
           ''web'' (JObj [(''a'', JNum 1), (''b'', JNum 2), (''c'', JNum 3)]) 1000)
        ''web'' (JObj [(''framework'', JStr ''koa'')]) 1700000000000)
     ''web'' (JObj [(''framework'', JStr ''express'')])
   = Inr [\<lparr>suggestion = ''Consider using configuration similar to successful web'',
            confidence = 1 / 2,
            based_on = [''Success pattern from 1970-01-01T00:00:00.000Z'']\<rparr>,
          \<lparr>suggestion = ''Consider using configuration similar to successful web'',
            confidence = 1,
            based_on = [''Success pattern from 2023-11-14T22:13:20.000Z'']\<rparr>]"
  using getRecommendations_qualifying_records
          [of "learnSuccess
                 (learnSuccess
                    (learnSuccess new_MemorySystem ''web''
                       (JObj [(''framework'', JStr ''express''), (''db'', JStr ''postgres'')]) 0)
                    ''web'' (JObj [(''a'', JNum 1), (''b'', JNum 2), (''c'', JNum 3)]) 1000)
                 ''web'' (JObj [(''framework'', JStr ''koa'')]) 1700000000000"
              "''web''" "JObj [(''framework'', JStr ''express'')]"]
  by (simp add: getSuccessPatterns_def learnSuccess_def new_MemorySystem_def
        computed_similarity_def calculateSimilarity_def toISOString_examples)

text \<open>
  C8. Every Recommendation that \<open>getRecommendations\<close> returns has a confidence between
  0 and 1.
\<close>

theorem getRecommendations_confidence_range:
  assumes "getRecommendations m ty partialConfig = Inr rs" and "r \<in> set rs"
  shows "0 \<le> confidence r \<and> confidence r \<le> 1"
proof -
  from assms(1) have "recommend_loop ty partialConfig (getSuccessPatterns m ty) [] = Inr rs"
    by (simp add: getRecommendations_def)
  then have "\<forall>r\<in>set rs. 0 \<le> confidence r \<and> confidence r \<le> 1"
    by (rule recommend_loop_range) simp
  with assms(2) show ?thesis by blast
qed

theorem getRecommendations_confidence_range_witness:
  "getRecommendations
     (learnSuccess new_MemorySystem ''web''
        (JObj [(''framework'', JStr ''express''), (''db'', JStr ''postgres'')]) 0)
     ''web'' (JObj [(''framework'', JStr ''express'')])
   = Inr [\<lparr>suggestion = ''Consider using configuration similar to successful web'',
            confidence = 1 / 2,
            based_on = [''Success pattern from 1970-01-01T00:00:00.000Z'']\<rparr>]
   \<and> (0::rat) \<le> 1 / 2 \<and> (1 / 2 :: rat) \<le> 1"
proof -
  have run: "getRecommendations
     (learnSuccess new_MemorySystem ''web''
        (JObj [(''framework'', JStr ''express''), (''db'', JStr ''postgres'')]) 0)
     ''web'' (JObj [(''framework'', JStr ''express'')])
   = Inr [\<lparr>suggestion = ''Consider using configuration similar to successful web'',
            confidence = 1 / 2,
            based_on = [''Success pattern from 1970-01-01T00:00:00.000Z'']\<rparr>]"
    by (simp add: getRecommendations_def getSuccessPatterns_def learnSuccess_def
          new_MemorySystem_def calculateSimilarity_def toISOString_examples)
  from getRecommendations_confidence_range [OF run, of
         "\<lparr>suggestion = ''Consider using configuration similar to successful web'',
            confidence = 1 / 2,
            based_on = [''Success pattern from 1970-01-01T00:00:00.000Z'']\<rparr>"]
  have "(0::rat) \<le> 1 / 2 \<and> (1 / 2 :: rat) \<le> 1" by simp
  with run show ?thesis by simp
qed

text \<open>
  C4, as stated, fails: with one success record stored for the type, the candidate
  \<open>null\<close> makes \<open>Object.keys\<close> throw a \<open>TypeError\<close> in the first iteration.
\<close>

theorem getRecommendations_null_candidate_throws:
  "getRecommendations
     (learnSuccess new_MemorySystem ''web'' (JObj [(''framework'', JStr ''express'')]) 0)
     ''web'' JNull = Inl TypeError"
  by (simp add: getRecommendations_def getSuccessPatterns_def learnSuccess_def
        new_MemorySystem_def calculateSimilarity_def)

text \<open>
  C4, amended. When no success pattern is stored for the type, \<open>getRecommendations\<close>
  returns the empty sequence for every candidate value; when the candidate and every
  stored success configuration of the type are neither \<open>null\<close> nor \<open>undefined\<close>, it
  returns normally with a sequence of Recommendations.
\<close>

theorem getRecommendations_returns:
  "(getSuccessPatterns m ty = [] \<longrightarrow> getRecommendations m ty partialConfig = Inr [])
   \<and> (\<not> nullish partialConfig \<and> (\<forall>p\<in>set (getSuccessPatterns m ty). \<not> nullish (config p))
        \<longrightarrow> (\<exists>rs. getRecommendations m ty partialConfig = Inr rs))"
proof (intro conjI impI)
  assume "getSuccessPatterns m ty = []"
  then show "getRecommendations m ty partialConfig = Inr []"
    by (simp add: getRecommendations_def)
next
  assume ok: "\<not> nullish partialConfig \<and> (\<forall>p\<in>set (getSuccessPatterns m ty). \<not> nullish (config p))"
  then have "\<forall>p\<in>set (getSuccessPatterns m ty). \<not> nullish (config p)"
    and "getSuccessPatterns m ty \<noteq> [] \<longrightarrow> \<not> nullish partialConfig"
    by simp_all
  from recommend_loop_map_filter [OF this, of ty "[]"]
  show "\<exists>rs. getRecommendations m ty partialConfig = Inr rs"
    by (simp add: getRecommendations_def)
qed

theorem getRecommendations_returns_witness:
  "getRecommendations new_MemorySystem ''web'' JNull = Inr []
   \<and> (\<exists>rs. getRecommendations
          (learnSuccess new_MemorySystem ''web'' (JObj [(''framework'', JStr ''express'')]) 0)
          ''web'' (JObj [(''db'', JStr ''postgres'')]) = Inr rs)"
  using getRecommendations_returns [of new_MemorySystem "''web''" JNull]
        getRecommendations_returns
          [of "learnSuccess new_MemorySystem ''web'' (JObj [(''framework'', JStr ''express'')]) 0"
              "''web''" "JObj [(''db'', JStr ''postgres'')]"]
  by (simp add: getSuccessPatterns_def learnSuccess_def new_MemorySystem_def)

section \<open>The pattern store\<close>

text \<open>
  C3. \<open>learnSuccess(type, c)\<close> appends one record with config \<open>c\<close> at the end of the
  type's success sequence: \<open>getSuccessPatterns(type)\<close> afterwards is the previous
  sequence, unchanged, followed by the new record.
\<close>

theorem learnSuccess_appends_last:
  "getSuccessPatterns (learnSuccess m ty c now) ty
     = getSuccessPatterns m ty @ [\<lparr>type = ty, config = c, timestamp = now\<rparr>]
   \<and> config (last (getSuccessPatterns (learnSuccess m ty c now) ty)) = c
   \<and> length (getSuccessPatterns (learnSuccess m ty c now) ty)
       = Suc (length (getSuccessPatterns m ty))"
  by (simp add: getSuccessPatterns_def learnSuccess_def Let_def split: option.splits)

lemma getSuccessPatterns_perform:
  "getSuccessPatterns (perform m c) ty
     = getSuccessPatterns m ty @ filter (\<lambda>p. type p = ty) (success_record c)"
  by (cases c)
     (auto simp: getSuccessPatterns_def learnSuccess_def learnFailure_def storePattern_def
        storeLessons_def store_def setContext_def clearContext_def initialize_def Let_def
        split: option.splits)

lemma getFailurePatterns_perform:
  "getFailurePatterns (perform m c) ty
     = getFailurePatterns m ty @ filter (\<lambda>p. type p = ty) (failure_record c)"
  by (cases c)
     (auto simp: getFailurePatterns_def learnSuccess_def learnFailure_def storePattern_def
        storeLessons_def store_def setContext_def clearContext_def initialize_def Let_def
        split: option.splits)

lemma getSuccessPatterns_foldl:
  "getSuccessPatterns (foldl perform m calls) ty
     = getSuccessPatterns m ty @ filter (\<lambda>p. type p = ty) (concat (map success_record calls))"
  by (induction calls arbitrary: m) (simp_all add: getSuccessPatterns_perform)

lemma getFailurePatterns_foldl:
  "getFailurePatterns (foldl perform m calls) ty
     = getFailurePatterns m ty @ filter (\<lambda>p. type p = ty) (concat (map failure_record calls))"
  by (induction calls arbitrary: m) (simp_all add: getFailurePatterns_perform)

text \<open>
  C7. After any sequence of calls on a fresh memory system, \<open>getSuccessPatterns\<close> and
  \<open>getFailurePatterns\<close> return, for every type, exactly the records the calls asked to
  append for that type, in call order; for a type with no such record, and for a type
  with no entry in the map, they return the empty sequence. Both are total.
\<close>

theorem patterns_of_run:
  "getSuccessPatterns (run calls) ty = recorded_successes calls ty
   \<and> getFailurePatterns (run calls) ty = recorded_failures calls ty
   \<and> (ty \<notin> type ` set (concat (map success_record calls))
        \<longrightarrow> getSuccessPatterns (run calls) ty = [])
   \<and> (ty \<notin> type ` set (concat (map failure_record calls))
        \<longrightarrow> getFailurePatterns (run calls) ty = [])
   \<and> (successPatterns m ty = None \<longrightarrow> getSuccessPatterns m ty = [])
   \<and> (failurePatterns m ty = None \<longrightarrow> getFailurePatterns m ty = [])"
proof -
  have empty: "getSuccessPatterns new_MemorySystem ty = []"
    "getFailurePatterns new_MemorySystem ty = []"
    by (simp_all add: getSuccessPatterns_def getFailurePatterns_def new_MemorySystem_def)
  have s: "getSuccessPatterns (run calls) ty = recorded_successes calls ty"
    unfolding run_def recorded_successes_def
    by (simp only: getSuccessPatterns_foldl empty append_Nil)
  have f: "getFailurePatterns (run calls) ty = recorded_failures calls ty"
    unfolding run_def recorded_failures_def
    by (simp only: getFailurePatterns_foldl empty append_Nil)
  have s0: "ty \<notin> type ` set (concat (map success_record calls))
              \<longrightarrow> recorded_successes calls ty = []"
    unfolding recorded_successes_def by (auto simp: filter_empty_conv)
  have f0: "ty \<notin> type ` set (concat (map failure_record calls))
              \<longrightarrow> recorded_failures calls ty = []"
    unfolding recorded_failures_def by (auto simp: filter_empty_conv)
  have none: "(successPatterns m ty = None \<longrightarrow> getSuccessPatterns m ty = [])
     \<and> (failurePatterns m ty = None \<longrightarrow> getFailurePatterns m ty = [])"
    by (simp add: getSuccessPatterns_def getFailurePatterns_def)
  from s f s0 f0 none show ?thesis by simp
qed

theorem patterns_of_run_witness:
  "getSuccessPatterns
     (run [LearnSuccess ''web'' (JObj [(''port'', JNum 80)]) 1,
           LearnFailure ''web'' (JObj []) ''boom'' 2,
           StorePattern ''db'' (JStr ''pg'') 3,
           LearnSuccess ''web'' (JObj [(''port'', JNum 80)]) 4]) ''web''
     = [\<lparr>type = ''web'', config = JObj [(''port'', JNum 80)], timestamp = 1\<rparr>,
        \<lparr>type = ''web'', config = JObj [(''port'', JNum 80)], timestamp = 4\<rparr>]
   \<and> getFailurePatterns
     (run [LearnSuccess ''web'' (JObj [(''port'', JNum 80)]) 1,
           LearnFailure ''web'' (JObj []) ''boom'' 2,
           StorePattern ''db'' (JStr ''pg'') 3,
           LearnSuccess ''web'' (JObj [(''port'', JNum 80)]) 4]) ''web''
     = [\<lparr>type = ''web'', config = JObj [], timestamp = 2, error = ''boom''\<rparr>]
   \<and> getFailurePatterns
     (run [LearnSuccess ''web'' (JObj [(''port'', JNum 80)]) 1,
           LearnFailure ''web'' (JObj []) ''boom'' 2,
           StorePattern ''db'' (JStr ''pg'') 3,
           LearnSuccess ''web'' (JObj [(''port'', JNum 80)]) 4]) ''db'' = []
   \<and> getSuccessPatterns new_MemorySystem ''web'' = []"
  using patterns_of_run
          [of "[LearnSuccess ''web'' (JObj [(''port'', JNum 80)]) 1,
                LearnFailure ''web'' (JObj []) ''boom'' 2,
                StorePattern ''db'' (JStr ''pg'') 3,
                LearnSuccess ''web'' (JObj [(''port'', JNum 80)]) 4]" "''web''" new_MemorySystem]
        patterns_of_run
          [of "[LearnSuccess ''web'' (JObj [(''port'', JNum 80)]) 1,
                LearnFailure ''web'' (JObj []) ''boom'' 2,
                StorePattern ''db'' (JStr ''pg'') 3,
                LearnSuccess ''web'' (JObj [(''port'', JNum 80)]) 4]" "''db''" new_MemorySystem]
  by (simp add: recorded_successes_def recorded_failures_def new_MemorySystem_def)

text \<open>
  C10. \<open>learnSuccess\<close> on a type leaves the failure patterns, the success patterns of
  every other type, the generic storage and the context unchanged; \<open>learnFailure\<close>
  leaves the success patterns, the failure patterns of every other type, the generic
  storage and the context unchanged.
\<close>

theorem learn_frame:
  "failurePatterns (learnSuccess m t c now) = failurePatterns m
   \<and> (t' \<noteq> t \<longrightarrow> successPatterns (learnSuccess m t c now) t' = successPatterns m t')
   \<and> storage (learnSuccess m t c now) = storage m
   \<and> context (learnSuccess m t c now) = context m
   \<and> successPatterns (learnFailure m t c e now) = successPatterns m
   \<and> (t' \<noteq> t \<longrightarrow> failurePatterns (learnFailure m t c e now) t' = failurePatterns m t')
   \<and> storage (learnFailure m t c e now) = storage m
   \<and> context (learnFailure m t c e now) = context m"
  by (simp add: learnSuccess_def learnFailure_def Let_def)

theorem learn_frame_witness:
  "successPatterns
     (learnSuccess (learnSuccess new_MemorySystem ''db'' (JStr ''pg'') 1) ''web'' (JObj []) 2)
     ''db''
     = Some [\<lparr>type = ''db'', config = JStr ''pg'', timestamp = 1\<rparr>]
   \<and> failurePatterns
     (learnFailure (learnFailure new_MemorySystem ''db'' (JStr ''pg'') ''down'' 1)
        ''web'' (JObj []) ''boom'' 2) ''db''
     = Some [\<lparr>type = ''db'', config = JStr ''pg'', timestamp = 1, error = ''down''\<rparr>]"
  using learn_frame
          [of "learnSuccess new_MemorySystem ''db'' (JStr ''pg'') 1" "''web''" "JObj []" 2
              "''db''" "''boom''"]
        learn_frame
          [of "learnFailure new_MemorySystem ''db'' (JStr ''pg'') ''down'' 1" "''web''" "JObj []"
              2 "''db''" "''boom''"]
  by (simp add: learnSuccess_def learnFailure_def new_MemorySystem_def)

section \<open>Generic storage\<close>

lemma retrieve_store_truthy: "truthy v \<Longrightarrow> retrieve (store m k v) k = v"
  by (simp add: retrieve_def store_def map_get_def js_or_def)

lemma retrieve_store_falsy: "\<not> truthy v \<Longrightarrow> retrieve (store m k v) k = JNull"
  by (simp add: retrieve_def store_def map_get_def js_or_def)

lemma retrieve_missing: "storage m k = None \<Longrightarrow> retrieve m k = JNull"
  by (simp add: retrieve_def map_get_def js_or_def)

lemma retrieve_store_other: "k' \<noteq> k \<Longrightarrow> retrieve (store m k v) k' = retrieve m k'"
  by (simp add: retrieve_def store_def map_get_def)

text \<open>
  C6. \<open>retrieve\<close> after \<open>store(k, v)\<close> should return \<open>v\<close>. The code returns
  \<open>this.storage.get(key) || null\<close>, so a stored falsy value comes back as \<open>null\<close>:
  after \<open>store("count", 0)\<close>, \<open>retrieve("count")\<close> is \<open>null\<close>, not \<open>0\<close>.
\<close>

theorem retrieve_after_store_zero:
  "retrieve (store new_MemorySystem ''count'' (JNum 0)) ''count'' = JNull
   \<and> JNum 0 \<noteq> JNull"
  by (simp add: retrieve_def store_def map_get_def js_or_def new_MemorySystem_def)

section \<open>The context store\<close>

lemma clearContext_given_key:
  "k \<noteq> [] \<Longrightarrow> context (clearContext m (Some k)) = (context m)(k := None)"
  by (simp add: clearContext_def)

lemma clearContext_omitted: "context (clearContext m None) = Map.empty"
  by (simp add: clearContext_def)

lemma clearContext_empty_key: "context (clearContext m (Some [])) = Map.empty"
  by (simp add: clearContext_def)

text \<open>
  C5. \<open>clearContext(k)\<close> with a key given should remove at most the entry for \<open>k\<close>.
  The code tests \<open>if (key)\<close>, so the empty string, a key \<open>setContext\<close> accepts, takes
  the branch of the omitted key: \<open>clearContext("")\<close> removes the entry for \<open>"user"\<close>
  too.
\<close>

theorem clearContext_empty_key_clears_scope:
  "context (setContext (setContext new_MemorySystem [] (JNum 1)) ''user'' (JStr ''ann''))
     ''user'' = Some (JStr ''ann'')
   \<and> context
       (clearContext
          (setContext (setContext new_MemorySystem [] (JNum 1)) ''user'' (JStr ''ann''))
          (Some []))
       ''user'' = None"
  by (simp add: clearContext_def setContext_def new_MemorySystem_def)

end
